theory Spec2Isabelle
  imports Main
begin

section \<open>Kubernetes credential handling (prefect\_kubernetes/credentials.py)\<close>

subsection \<open>Values, errors and collaborators\<close>

text \<open>
  A loaded YAML value, as \<^verbatim>\<open>yaml.safe_load\<close> returns it. A Python \<^verbatim>\<open>dict\<close> is an
  association list; a \<^verbatim>\<open>str\<close> is \<open>YStr\<close>.
\<close>

datatype yaml =
    YNull
  | YBool bool
  | YInt int
  | YStr string
  | YSeq "yaml list"
  | YMap "(yaml \<times> yaml) list"

type_synonym doc = "(yaml \<times> yaml) list"

text \<open>A context entry as \<^verbatim>\<open>list_kube_config_contexts\<close> returns it: a dict with string keys.\<close>

type_synonym pydict = "(string \<times> yaml) list"

text \<open>
  The text of the two \<^verbatim>\<open>ValueError\<close>s of the module is an f-string over the values kept
  here: \<^verbatim>\<open>f"Context {context_name!r} not found. Specify one of: {listrepr(context_names, sep=', ')}."\<close>
  and \<^verbatim>\<open>f"Invalid client type provided '{client_type}'. Must be one of {listrepr(K8S_CLIENT_TYPES.keys())}."\<close>
\<close>

datatype message =
    ContextNotFound string "yaml set"
  | InvalidClientType string "string list"

text \<open>
  \<open>ConfigException\<close> is the exception class of \<^verbatim>\<open>kubernetes_asyncio.config\<close>;
  \<open>LibraryError\<close> stands for any other exception a collaborator raises (file, parser,
  transport); \<open>CancelledError\<close> is the cancellation of the caller's task.
\<close>

datatype error =
    ValueError message
  | KeyError string
  | TypeError string
  | ValidationError
  | ConfigException string
  | LibraryError string
  | CancelledError

text \<open>A \<^verbatim>\<open>Configuration\<close> object: the one the caller passed, or the one \<^verbatim>\<open>Configuration()\<close> built.\<close>

datatype conf_ref = Given nat | Created

text \<open>What a configuration has been loaded from.\<close>

datatype source = FromDict doc string | InCluster | KubeConfigFile

datatype api_client = ApiClient conf_ref | ApiClientFromDict doc string

datatype api_class = AppsV1Api | BatchV1Api | CoreV1Api | CustomObjectsApi

datatype typed_client = TypedClient api_class api_client

text \<open>
  Every call the module makes on a collaborator, with its outcome (\<open>None\<close>: it returned;
  \<open>Some e\<close>: it raised \<open>e\<close>). The loaders carry their \<^verbatim>\<open>client_configuration\<close> argument:
  \<open>None\<close> when the argument is omitted, in which case the library sets the process-wide
  default configuration.
\<close>

datatype event =
    Configuration_new
  | Load_from_dict doc string "conf_ref option" "error option"
  | Load_incluster "conf_ref option" "error option"
  | Load_kube_config "conf_ref option" "error option"
  | New_client_from_config_dict doc string "error option"
  | ApiClient_new conf_ref "error option"
  | ApiClient_aenter
  | Typed_client_new string
  | Caller_block "error option"
  | ApiClient_close "error option"
  | ApiClient_aexit

text \<open>
  The collaborators are parameters: the file system, the YAML parser and
  \<^verbatim>\<open>kubernetes_asyncio\<close> are not part of the module. \<open>aexit_closes\<close> says whether the
  \<^verbatim>\<open>__aexit__\<close> of the connection class closes the connection itself (that of
  \<^verbatim>\<open>kubernetes_asyncio.client.ApiClient\<close> awaits \<^verbatim>\<open>self.close()\<close>); the outcome of a
  close depends on how many closes of the connection came before.
\<close>

record env =
  KUBE_CONFIG_DEFAULT_LOCATION :: string
  resolve_path :: "string \<Rightarrow> error + string"
  list_kube_config_contexts :: "string \<Rightarrow> error + (pydict list \<times> pydict)"
  read_text :: "string \<Rightarrow> error + string"
  safe_load :: "string \<Rightarrow> error + yaml"
  load_kube_config_from_dict :: "doc \<Rightarrow> string \<Rightarrow> conf_ref option \<Rightarrow> error option"
  load_incluster_config :: "conf_ref option \<Rightarrow> error option"
  load_kube_config :: "conf_ref option \<Rightarrow> error option"
  new_client_from_config_dict :: "doc \<Rightarrow> string \<Rightarrow> error option"
  ApiClient_init :: "conf_ref \<Rightarrow> error option"
  ApiClient_close_outcome :: "nat \<Rightarrow> error option"
  aexit_closes :: bool

text \<open>
  The state the module acts on: the process-wide default configuration of the client
  library, and the trace of collaborator calls made so far.
\<close>

record world =
  default_conf :: "source option"
  trace :: "event list"

definition emit :: "event \<Rightarrow> world \<Rightarrow> world" where
  "emit ev w = w\<lparr>trace := trace w @ [ev]\<rparr>"

definition raise_or :: "error option \<Rightarrow> 'a \<Rightarrow> error + 'a" where
  "raise_or r x = (case r of Some e \<Rightarrow> Inl e | None \<Rightarrow> Inr x)"

definition set_default :: "conf_ref option \<Rightarrow> error option \<Rightarrow> source \<Rightarrow> world \<Rightarrow> world" where
  "set_default cc r s w = (if cc = None \<and> r = None then w\<lparr>default_conf := Some s\<rparr> else w)"

definition call_load_kube_config_from_dict ::
  "env \<Rightarrow> doc \<Rightarrow> string \<Rightarrow> conf_ref option \<Rightarrow> world \<Rightarrow> (error + unit) \<times> world" where
  "call_load_kube_config_from_dict env d c cc w =
     (let r = load_kube_config_from_dict env d c cc
      in (raise_or r (), set_default cc r (FromDict d c) (emit (Load_from_dict d c cc r) w)))"

definition call_load_incluster_config ::
  "env \<Rightarrow> conf_ref option \<Rightarrow> world \<Rightarrow> (error + unit) \<times> world" where
  "call_load_incluster_config env cc w =
     (let r = load_incluster_config env cc
      in (raise_or r (), set_default cc r InCluster (emit (Load_incluster cc r) w)))"

definition call_load_kube_config ::
  "env \<Rightarrow> conf_ref option \<Rightarrow> world \<Rightarrow> (error + unit) \<times> world" where
  "call_load_kube_config env cc w =
     (let r = load_kube_config env cc
      in (raise_or r (), set_default cc r KubeConfigFile (emit (Load_kube_config cc r) w)))"

text \<open>\<^verbatim>\<open>await api_client.close()\<close>, the \<open>n\<close>-th close of the connection (counted from 0).\<close>

definition call_close :: "env \<Rightarrow> nat \<Rightarrow> world \<Rightarrow> (error + unit) \<times> world" where
  "call_close env n w =
     (let r = ApiClient_close_outcome env n
      in (raise_or r (), emit (ApiClient_close r) w))"

text \<open>Leaving \<^verbatim>\<open>async with ApiClient(...)\<close>: the \<^verbatim>\<open>__aexit__\<close> of the connection runs.\<close>

definition call_aexit :: "env \<Rightarrow> world \<Rightarrow> (error + unit) \<times> world" where
  "call_aexit env w =
     (let w1 = emit ApiClient_aexit w
      in if aexit_closes env then call_close env 1 w1 else (Inr (), w1))"

subsection \<open>KubernetesClusterConfig\<close>

record KubernetesClusterConfig =
  config :: doc
  context_name :: string

text \<open>The \<^verbatim>\<open>field_validator("config", mode="before")\<close>.\<close>

definition parse_yaml_config :: "env \<Rightarrow> yaml \<Rightarrow> error + yaml" where
  "parse_yaml_config env v = (case v of YStr s \<Rightarrow> safe_load env s | _ \<Rightarrow> Inr v)"

text \<open>
  \<^verbatim>\<open>cls(config=..., context_name=...)\<close>: the validator runs first, then the fields are
  checked against their types \<^verbatim>\<open>Dict\<close> and \<^verbatim>\<open>str\<close>.
\<close>

definition new_cluster_config :: "env \<Rightarrow> yaml \<Rightarrow> yaml \<Rightarrow> error + KubernetesClusterConfig" where
  "new_cluster_config env cfg ctx =
     (case parse_yaml_config env cfg of
        Inl e \<Rightarrow> Inl e
      | Inr v \<Rightarrow>
          (case v of
             YMap m \<Rightarrow>
               (case ctx of
                  YStr c \<Rightarrow> Inr \<lparr>config = m, context_name = c\<rparr>
                | _ \<Rightarrow> Inl ValidationError)
           | _ \<Rightarrow> Inl ValidationError))"

definition getitem :: "pydict \<Rightarrow> string \<Rightarrow> error + yaml" where
  "getitem d k = (case map_of d k of None \<Rightarrow> Inl (KeyError k) | Some v \<Rightarrow> Inr v)"

text \<open>
  Hashing a value: a \<^verbatim>\<open>list\<close> and a \<^verbatim>\<open>dict\<close> are unhashable, and putting one into a
  set raises \<^verbatim>\<open>TypeError("unhashable type: 'list'")\<close>.
\<close>

definition unhashable :: "yaml \<Rightarrow> string option" where
  "unhashable v = (case v of YSeq xs \<Rightarrow> Some ''list'' | YMap m \<Rightarrow> Some ''dict'' | _ \<Rightarrow> None)"

text \<open>
  \<^verbatim>\<open>==\<close> on hashable values: a \<^verbatim>\<open>bool\<close> is the \<^verbatim>\<open>int\<close> 0 or 1, every other scalar is
  equal only to itself. (Only hashable values are ever compared here.)
\<close>

definition py_num :: "yaml \<Rightarrow> int option" where
  "py_num v = (case v of YBool b \<Rightarrow> Some (if b then 1 else 0) | YInt i \<Rightarrow> Some i | _ \<Rightarrow> None)"

definition py_eq :: "yaml \<Rightarrow> yaml \<Rightarrow> bool" where
  "py_eq x y = (case (py_num x, py_num y) of (Some a, Some b) \<Rightarrow> a = b | _ \<Rightarrow> x = y)"

text \<open>
  A \<^verbatim>\<open>set\<close> of hashable values is kept as the list of its elements, in the order they
  were added: \<^verbatim>\<open>x in s\<close> looks for an equal element, and adding a value equal to an
  element leaves the set as it is.
\<close>

definition py_in :: "yaml \<Rightarrow> yaml list \<Rightarrow> bool" where
  "py_in x s = list_ex (\<lambda>y. py_eq y x) s"

definition set_add :: "yaml list \<Rightarrow> yaml \<Rightarrow> yaml list" where
  "set_add s x = (if py_in x s then s else s @ [x])"

text \<open>
  \<^verbatim>\<open>{ctx["name"] for ctx in existing_contexts}\<close>, entry by entry: the lookup raises
  \<^verbatim>\<open>KeyError\<close> for an entry without the key, the insertion \<^verbatim>\<open>TypeError\<close> for an
  unhashable name.
\<close>

fun context_names_from :: "yaml list \<Rightarrow> pydict list \<Rightarrow> error + yaml list" where
  "context_names_from acc [] = Inr acc"
| "context_names_from acc (ctx # rest) =
     (case getitem ctx ''name'' of
        Inl e \<Rightarrow> Inl e
      | Inr n \<Rightarrow>
          (case unhashable n of
             Some t \<Rightarrow> Inl (TypeError (''unhashable type: '' @ [CHR 0x27] @ t @ [CHR 0x27]))
           | None \<Rightarrow> context_names_from (set_add acc n) rest))"

definition context_names_of :: "pydict list \<Rightarrow> error + yaml list" where
  "context_names_of ctxs = context_names_from [] ctxs"

text \<open>
  \<^verbatim>\<open>if context_name:\<close> and \<^verbatim>\<open>path or ...\<close> on an optional string: \<^verbatim>\<open>None\<close> and the
  empty string are false, so only a non-empty string is taken as given.
\<close>

definition truthy :: "string option \<Rightarrow> string option" where
  "truthy s = (case s of None \<Rightarrow> None | Some c \<Rightarrow> if c = [] then None else Some c)"

text \<open>
  \<^verbatim>\<open>Path(path or KUBE_CONFIG_DEFAULT_LOCATION).expanduser().resolve()\<close>; expanding and
  resolving are the file system's and may raise.
\<close>

definition config_path :: "env \<Rightarrow> string option \<Rightarrow> error + string" where
  "config_path env path =
     resolve_path env
       (case truthy path of None \<Rightarrow> KUBE_CONFIG_DEFAULT_LOCATION env | Some q \<Rightarrow> q)"

definition from_file :: "env \<Rightarrow> string option \<Rightarrow> string option \<Rightarrow> error + KubernetesClusterConfig" where
  "from_file env path ctx_name =
     (case config_path env path of
        Inl e \<Rightarrow> Inl e
      | Inr p \<Rightarrow>
          (case list_kube_config_contexts env p of
             Inl e \<Rightarrow> Inl e
           | Inr (existing_contexts, current_context) \<Rightarrow>
               (case context_names_of existing_contexts of
                  Inl e \<Rightarrow> Inl e
                | Inr context_names \<Rightarrow>
                    (case (case truthy ctx_name of
                             Some c \<Rightarrow>
                               (if \<not> py_in (YStr c) context_names
                                then Inl (ValueError (ContextNotFound c (set context_names)))
                                else Inr (YStr c))
                           | None \<Rightarrow> getitem current_context ''name'') of
                       Inl e \<Rightarrow> Inl e
                     | Inr cn \<Rightarrow>
                         (case read_text env p of
                            Inl e \<Rightarrow> Inl e
                          | Inr config_file_contents \<Rightarrow>
                              (case safe_load env config_file_contents of
                                 Inl e \<Rightarrow> Inl e
                               | Inr config_dict \<Rightarrow> new_cluster_config env config_dict cn))))))"

definition get_api_client ::
  "env \<Rightarrow> KubernetesClusterConfig \<Rightarrow> world \<Rightarrow> (error + api_client) \<times> world" where
  "get_api_client env self w =
     (let r = new_client_from_config_dict env (config self) (context_name self)
      in (raise_or r (ApiClientFromDict (config self) (context_name self)),
          emit (New_client_from_config_dict (config self) (context_name self) r) w))"

definition configure_client ::
  "env \<Rightarrow> KubernetesClusterConfig \<Rightarrow> world \<Rightarrow> (error + unit) \<times> world" where
  "configure_client env self w =
     call_load_kube_config_from_dict env (config self) (context_name self) None w"

subsection \<open>KubernetesCredentials\<close>

definition K8S_CLIENT_TYPES :: "(string \<times> api_class) list" where
  "K8S_CLIENT_TYPES =
     [(''apps'', AppsV1Api), (''batch'', BatchV1Api), (''core'', CoreV1Api),
      (''custom_objects'', CustomObjectsApi)]"

record KubernetesCredentials =
  cluster_config :: "KubernetesClusterConfig option"

definition is_config_exception :: "error \<Rightarrow> bool" where
  "is_config_exception e = (case e of ConfigException m \<Rightarrow> True | _ \<Rightarrow> False)"

text \<open>
  \<^verbatim>\<open>try: load_incluster_config(...) except ConfigException: await load_kube_config(...)\<close>,
  which both methods contain: \<open>get_client\<close> with its \<^verbatim>\<open>client_configuration\<close>,
  \<open>get_resource_specific_client\<close> without any.
\<close>

definition incluster_or_kube_config ::
  "env \<Rightarrow> conf_ref option \<Rightarrow> world \<Rightarrow> (error + unit) \<times> world" where
  "incluster_or_kube_config env cc w =
     (case call_load_incluster_config env cc w of
        (Inl e, w1) \<Rightarrow>
          (if is_config_exception e then call_load_kube_config env cc w1 else (Inl e, w1))
      | (Inr u, w1) \<Rightarrow> (Inr u, w1))"

text \<open>The \<^verbatim>\<open>if self.cluster_config: ... else: ...\<close> of \<open>get_resource_specific_client\<close>.\<close>

definition activate_default ::
  "env \<Rightarrow> KubernetesCredentials \<Rightarrow> world \<Rightarrow> (error + unit) \<times> world" where
  "activate_default env self w =
     (case cluster_config self of
        Some s \<Rightarrow> configure_client env s w
      | None \<Rightarrow> incluster_or_kube_config env None w)"

text \<open>
  \<^verbatim>\<open>try: return K8S_CLIENT_TYPES[client_type](api_client)\<close>
  \<^verbatim>\<open>except KeyError: raise ValueError(...)\<close>
\<close>

definition dispatch :: "string \<Rightarrow> api_client \<Rightarrow> error + typed_client" where
  "dispatch client_type api_client =
     (case map_of K8S_CLIENT_TYPES client_type of
        Some cls \<Rightarrow> Inr (TypedClient cls api_client)
      | None \<Rightarrow> Inl (ValueError (InvalidClientType client_type (map fst K8S_CLIENT_TYPES))))"

definition get_resource_specific_client ::
  "env \<Rightarrow> KubernetesCredentials \<Rightarrow> string \<Rightarrow> api_client \<Rightarrow> world
     \<Rightarrow> (error + typed_client) \<times> world" where
  "get_resource_specific_client env self client_type api_client w =
     (case activate_default env self w of
        (Inl e, w1) \<Rightarrow> (Inl e, w1)
      | (Inr u, w1) \<Rightarrow>
          (case dispatch client_type api_client of
             Inl e \<Rightarrow> (Inl e, w1)
           | Inr tc \<Rightarrow> (Inr tc, emit (Typed_client_new client_type) w1)))"

text \<open>The \<^verbatim>\<open>if self.cluster_config: ... else: ...\<close> of \<open>get_client\<close>.\<close>

definition load_client_configuration ::
  "env \<Rightarrow> KubernetesCredentials \<Rightarrow> conf_ref \<Rightarrow> world \<Rightarrow> (error + unit) \<times> world" where
  "load_client_configuration env self client_configuration w =
     (case cluster_config self of
        Some s \<Rightarrow>
          call_load_kube_config_from_dict env (config s) (context_name s)
            (Some client_configuration) w
      | None \<Rightarrow> incluster_or_kube_config env (Some client_configuration) w)"

text \<open>
  \<open>get_client\<close> is an \<^verbatim>\<open>asynccontextmanager\<close>: \<open>block\<close> is the body of the caller's
  \<^verbatim>\<open>async with\<close>, given the yielded client, with its outcome (\<open>None\<close>: it finished;
  \<open>Some e\<close>: \<open>e\<close> was raised in it, \<open>CancelledError\<close> for a cancellation).
  \<open>yield_client\<close> is the body of the \<^verbatim>\<open>try\<close>:
  \<^verbatim>\<open>yield await self.get_resource_specific_client(client_type, api_client=api_client)\<close>.
\<close>

definition yield_client ::
  "env \<Rightarrow> KubernetesCredentials \<Rightarrow> string \<Rightarrow> api_client \<Rightarrow> (typed_client \<Rightarrow> error option)
     \<Rightarrow> world \<Rightarrow> (error + unit) \<times> world" where
  "yield_client env self client_type api_client block w =
     (case get_resource_specific_client env self client_type api_client w of
        (Inl e, w1) \<Rightarrow> (Inl e, w1)
      | (Inr tc, w1) \<Rightarrow> (raise_or (block tc) (), emit (Caller_block (block tc)) w1))"

text \<open>
  A cleanup step (\<^verbatim>\<open>finally\<close>, \<^verbatim>\<open>__aexit__\<close>) runs whatever the pending outcome is; an
  exception it raises replaces the pending one, otherwise the pending outcome stands.
\<close>

definition after_cleanup :: "error + unit \<Rightarrow> error + unit \<Rightarrow> error + unit" where
  "after_cleanup pending cleanup = (case cleanup of Inl e \<Rightarrow> Inl e | Inr u \<Rightarrow> pending)"

text \<open>
  \<^verbatim>\<open>async with ApiClient(...) as api_client: try: yield ... finally: await api_client.close()\<close>,
  once the connection is constructed.
\<close>

definition api_client_scope ::
  "env \<Rightarrow> KubernetesCredentials \<Rightarrow> string \<Rightarrow> conf_ref \<Rightarrow> (typed_client \<Rightarrow> error option)
     \<Rightarrow> world \<Rightarrow> (error + unit) \<times> world" where
  "api_client_scope env self client_type client_configuration block w =
     (let w1 = emit ApiClient_aenter w;
          (body, w2) = yield_client env self client_type (ApiClient client_configuration) block w1;
          (closed, w3) = call_close env 0 w2;
          (exited, w4) = call_aexit env w3
      in (after_cleanup (after_cleanup body closed) exited, w4))"

text \<open>
  The result is what the caller's \<^verbatim>\<open>async with credentials.get_client(...)\<close> statement
  as a whole does: finish (\<open>Inr\<close>) or raise (\<open>Inl\<close>).
\<close>

definition get_client ::
  "env \<Rightarrow> KubernetesCredentials \<Rightarrow> string \<Rightarrow> conf_ref option \<Rightarrow> (typed_client \<Rightarrow> error option)
     \<Rightarrow> world \<Rightarrow> (error + unit) \<times> world" where
  "get_client env self client_type configuration block w =
     (let (client_configuration, w0) =
            (case configuration of
               Some c \<Rightarrow> (c, w)
             | None \<Rightarrow> (Created, emit Configuration_new w))
      in case load_client_configuration env self client_configuration w0 of
           (Inl e, w1) \<Rightarrow> (Inl e, w1)
         | (Inr u, w1) \<Rightarrow>
             (let r = ApiClient_init env client_configuration;
                  w2 = emit (ApiClient_new client_configuration r) w1
              in case r of
                   Some e \<Rightarrow> (Inl e, w2)
                 | None \<Rightarrow> api_client_scope env self client_type client_configuration block w2))"

subsection \<open>Reading a trace\<close>

text \<open>The exception a call raised, if any.\<close>

fun raised :: "event \<Rightarrow> error option" where
  "raised (Load_from_dict d c cc r) = r"
| "raised (Load_incluster cc r) = r"
| "raised (Load_kube_config cc r) = r"
| "raised (New_client_from_config_dict d c r) = r"
| "raised (ApiClient_new cc r) = r"
| "raised (Caller_block r) = r"
| "raised (ApiClient_close r) = r"
| "raised Configuration_new = None"
| "raised ApiClient_aenter = None"
| "raised (Typed_client_new t) = None"
| "raised ApiClient_aexit = None"

fun is_close :: "event \<Rightarrow> bool" where
  "is_close (ApiClient_close r) = True"
| "is_close ev = False"

fun is_block :: "event \<Rightarrow> bool" where
  "is_block (Caller_block r) = True"
| "is_block ev = False"


text \<open>The in-cluster loader and the loader of the default file, whatever their target.\<close>

fun is_tier2 :: "event \<Rightarrow> bool" where
  "is_tier2 (Load_incluster cc r) = True"
| "is_tier2 ev = False"

fun is_tier3 :: "event \<Rightarrow> bool" where
  "is_tier3 (Load_kube_config cc r) = True"
| "is_tier3 ev = False"

text \<open>The in-cluster loader raising \<open>ConfigException\<close>: the error that the fallback catches.\<close>

fun incluster_unavailable :: "event \<Rightarrow> bool" where
  "incluster_unavailable (Load_incluster cc (Some e)) = is_config_exception e"
| "incluster_unavailable ev = False"

subsection \<open>The calls of a run in closed form\<close>

text \<open>
  Every outcome is fixed by the environment, so the result of each method and the events
  it adds to the trace can be written down as functions of the environment and the
  arguments alone. These functions are proved equal to what the methods above compute.
  \<open>resolution_result\<close> is what the three-tier resolution raises (\<open>None\<close>: it succeeded),
  \<open>resolution_events\<close> the loader calls it makes, \<open>resolution_source\<close> what it loads
  when it succeeds; the argument is the \<^verbatim>\<open>client_configuration\<close> passed to the loaders.
\<close>

definition fallback_result :: "env \<Rightarrow> conf_ref option \<Rightarrow> error option" where
  "fallback_result env cc =
     (case load_incluster_config env cc of
        None \<Rightarrow> None
      | Some e \<Rightarrow> if is_config_exception e then load_kube_config env cc else Some e)"

definition fallback_events :: "env \<Rightarrow> conf_ref option \<Rightarrow> event list" where
  "fallback_events env cc =
     (case load_incluster_config env cc of
        None \<Rightarrow> [Load_incluster cc None]
      | Some e \<Rightarrow>
          if is_config_exception e
          then [Load_incluster cc (Some e), Load_kube_config cc (load_kube_config env cc)]
          else [Load_incluster cc (Some e)])"

definition fallback_source :: "env \<Rightarrow> conf_ref option \<Rightarrow> source" where
  "fallback_source env cc =
     (case load_incluster_config env cc of None \<Rightarrow> InCluster | Some e \<Rightarrow> KubeConfigFile)"

definition resolution_result :: "env \<Rightarrow> KubernetesCredentials \<Rightarrow> conf_ref option \<Rightarrow> error option" where
  "resolution_result env self cc =
     (case cluster_config self of
        Some s \<Rightarrow> load_kube_config_from_dict env (config s) (context_name s) cc
      | None \<Rightarrow> fallback_result env cc)"

definition resolution_events :: "env \<Rightarrow> KubernetesCredentials \<Rightarrow> conf_ref option \<Rightarrow> event list" where
  "resolution_events env self cc =
     (case cluster_config self of
        Some s \<Rightarrow>
          [Load_from_dict (config s) (context_name s) cc
             (load_kube_config_from_dict env (config s) (context_name s) cc)]
      | None \<Rightarrow> fallback_events env cc)"

definition resolution_source :: "env \<Rightarrow> KubernetesCredentials \<Rightarrow> source" where
  "resolution_source env self =
     (case cluster_config self of
        Some s \<Rightarrow> FromDict (config s) (context_name s)
      | None \<Rightarrow> fallback_source env None)"

definition cleanup_events :: "env \<Rightarrow> event list" where
  "cleanup_events env =
     [ApiClient_close (ApiClient_close_outcome env 0), ApiClient_aexit]
       @ (if aexit_closes env then [ApiClient_close (ApiClient_close_outcome env 1)] else [])"


definition dispatch_events :: "string \<Rightarrow> api_client \<Rightarrow> (typed_client \<Rightarrow> error option) \<Rightarrow> event list" where
  "dispatch_events ct api block =
     (case dispatch ct api of
        Inl e \<Rightarrow> []
      | Inr tc \<Rightarrow> [Typed_client_new ct, Caller_block (block tc)])"

definition body_events ::
  "env \<Rightarrow> KubernetesCredentials \<Rightarrow> string \<Rightarrow> api_client \<Rightarrow> (typed_client \<Rightarrow> error option)
     \<Rightarrow> event list" where
  "body_events env self ct api block =
     resolution_events env self None
       @ (if resolution_result env self None = None then dispatch_events ct api block else [])"

definition body_result ::
  "env \<Rightarrow> KubernetesCredentials \<Rightarrow> string \<Rightarrow> api_client \<Rightarrow> (typed_client \<Rightarrow> error option)
     \<Rightarrow> error + unit" where
  "body_result env self ct api block =
     (case resolution_result env self None of
        Some e \<Rightarrow> Inl e
      | None \<Rightarrow>
          (case dispatch ct api of
             Inl e \<Rightarrow> Inl e
           | Inr tc \<Rightarrow> raise_or (block tc) ()))"

definition cleanup_result :: "env \<Rightarrow> error + unit \<Rightarrow> error + unit" where
  "cleanup_result env pending =
     after_cleanup
       (after_cleanup pending (raise_or (ApiClient_close_outcome env 0) ()))
       (if aexit_closes env then raise_or (ApiClient_close_outcome env 1) () else Inr ())"

definition conf_of :: "conf_ref option \<Rightarrow> conf_ref" where
  "conf_of configuration = (case configuration of Some c \<Rightarrow> c | None \<Rightarrow> Created)"

definition conf_events :: "conf_ref option \<Rightarrow> event list" where
  "conf_events configuration = (case configuration of Some c \<Rightarrow> [] | None \<Rightarrow> [Configuration_new])"

definition scope_events ::
  "env \<Rightarrow> KubernetesCredentials \<Rightarrow> string \<Rightarrow> conf_ref \<Rightarrow> (typed_client \<Rightarrow> error option)
     \<Rightarrow> event list" where
  "scope_events env self ct cc block =
     ApiClient_aenter # body_events env self ct (ApiClient cc) block @ cleanup_events env"

definition get_client_events ::
  "env \<Rightarrow> KubernetesCredentials \<Rightarrow> string \<Rightarrow> conf_ref option \<Rightarrow> (typed_client \<Rightarrow> error option)
     \<Rightarrow> event list" where
  "get_client_events env self ct configuration block =
     conf_events configuration
       @ resolution_events env self (Some (conf_of configuration))
       @ (if resolution_result env self (Some (conf_of configuration)) = None
          then ApiClient_new (conf_of configuration) (ApiClient_init env (conf_of configuration))
               # (if ApiClient_init env (conf_of configuration) = None
                  then scope_events env self ct (conf_of configuration) block
                  else [])
          else [])"

definition get_client_result ::
  "env \<Rightarrow> KubernetesCredentials \<Rightarrow> string \<Rightarrow> conf_ref option \<Rightarrow> (typed_client \<Rightarrow> error option)
     \<Rightarrow> error + unit" where
  "get_client_result env self ct configuration block =
     (case resolution_result env self (Some (conf_of configuration)) of
        Some e \<Rightarrow> Inl e
      | None \<Rightarrow>
          (case ApiClient_init env (conf_of configuration) of
             Some e \<Rightarrow> Inl e
           | None \<Rightarrow>
               cleanup_result env
                 (body_result env self ct (ApiClient (conf_of configuration)) block)))"

subsection \<open>A sample environment\<close>

text \<open>
  A kubeconfig with the contexts \<open>dev\<close> and \<open>prod\<close>, \<open>dev\<close> being current, at the default
  location of a machine outside any cluster: the in-cluster loader raises
  \<open>ConfigException\<close>, every other collaborator succeeds.
\<close>

definition sample_contexts :: "pydict list" where
  "sample_contexts =
     [[(''name'', YStr ''dev''),
       (''context'', YMap [(YStr ''cluster'', YStr ''c1''), (YStr ''user'', YStr ''u1'')])],
      [(''name'', YStr ''prod''),
       (''context'', YMap [(YStr ''cluster'', YStr ''c2''), (YStr ''user'', YStr ''u2'')])]]"

definition sample_doc :: doc where
  "sample_doc =
     [(YStr ''current-context'', YStr ''dev''),
      (YStr ''contexts'',
       YSeq [YMap [(YStr ''name'', YStr ''dev''),
                   (YStr ''context'', YMap [(YStr ''cluster'', YStr ''c1''), (YStr ''user'', YStr ''u1'')])],
             YMap [(YStr ''name'', YStr ''prod''),
                   (YStr ''context'', YMap [(YStr ''cluster'', YStr ''c2''), (YStr ''user'', YStr ''u2'')])]])]"

definition sample_env :: env where
  "sample_env =
     \<lparr>KUBE_CONFIG_DEFAULT_LOCATION = ''~/.kube/config'',
      resolve_path =
        (\<lambda>p. if p = ''~/.kube/config'' then Inr ''/home/u/.kube/config'' else Inr p),
      list_kube_config_contexts =
        (\<lambda>p. if p = ''/home/u/.kube/config'' then Inr (sample_contexts, hd sample_contexts)
             else Inl (ConfigException ''Invalid kube-config file. No configuration found.'')),
      read_text =
        (\<lambda>p. if p = ''/home/u/.kube/config'' then Inr ''kubeconfig''
             else Inl (LibraryError ''FileNotFoundError'')),
      safe_load =
        (\<lambda>s. if s = ''kubeconfig'' then Inr (YMap sample_doc) else Inr (YStr s)),
      load_kube_config_from_dict = (\<lambda>d c cc. None),
      load_incluster_config = (\<lambda>cc. Some (ConfigException ''Service host/port is not set.'')),
      load_kube_config = (\<lambda>cc. None),
      new_client_from_config_dict = (\<lambda>d c. None),
      ApiClient_init = (\<lambda>cc. None),
      ApiClient_close_outcome = (\<lambda>n. None),
      aexit_closes = True\<rparr>"

definition sample_store :: KubernetesClusterConfig where
  "sample_store = \<lparr>config = sample_doc, context_name = ''prod''\<rparr>"

definition world0 :: world where
  "world0 = \<lparr>default_conf = None, trace = []\<rparr>"

text \<open>
  A kubeconfig one of whose contexts has the empty string as its name.
\<close>

definition blank_contexts :: "pydict list" where
  "blank_contexts =
     [[(''name'', YStr ''''),
       (''context'', YMap [(YStr ''cluster'', YStr ''c0''), (YStr ''user'', YStr ''u0'')])],
      [(''name'', YStr ''dev''),
       (''context'', YMap [(YStr ''cluster'', YStr ''c1''), (YStr ''user'', YStr ''u1'')])]]"

definition blank_doc :: doc where
  "blank_doc =
     [(YStr ''current-context'', YStr ''dev''),
      (YStr ''contexts'',
       YSeq [YMap [(YStr ''name'', YStr ''''),
                   (YStr ''context'', YMap [(YStr ''cluster'', YStr ''c0''), (YStr ''user'', YStr ''u0'')])],
             YMap [(YStr ''name'', YStr ''dev''),
                   (YStr ''context'', YMap [(YStr ''cluster'', YStr ''c1''), (YStr ''user'', YStr ''u1'')])]])]"

definition blank_env :: env where
  "blank_env =
     sample_env
       \<lparr>list_kube_config_contexts := (\<lambda>p. Inr (blank_contexts, blank_contexts ! 1)),
        safe_load := (\<lambda>s. Inr (YMap blank_doc))\<rparr>"

section \<open>Construction of a cluster configuration\<close>

lemma py_eq_refl: "py_eq x x"
  by (simp add: py_eq_def split: option.splits)

lemma py_eq_str: "py_eq y (YStr c) \<longleftrightarrow> y = YStr c"
  by (cases y) (simp_all add: py_eq_def py_num_def)

lemma py_in_str: "py_in (YStr c) s \<longleftrightarrow> YStr c \<in> set s"
  by (simp add: py_in_def list_ex_iff py_eq_str)

lemma set_add_keeps: "set s \<subseteq> set (set_add s x)"
  by (auto simp: set_add_def)

lemma set_add_only: "set (set_add s x) \<subseteq> insert x (set s)"
  by (auto simp: set_add_def)

lemma set_add_has: "\<exists>y \<in> set (set_add s x). py_eq y x"
  by (auto simp: set_add_def py_in_def list_ex_iff py_eq_refl)

lemma context_names_from_spec:
  "context_names_from acc ctxs = Inr names \<Longrightarrow>
     set acc \<subseteq> set names
   \<and> set names \<subseteq> set acc \<union> {n. \<exists>ctx \<in> set ctxs. map_of ctx ''name'' = Some n}
   \<and> (\<forall>ctx \<in> set ctxs. \<forall>n. map_of ctx ''name'' = Some n \<longrightarrow> (\<exists>y \<in> set names. py_eq y n))"
proof (induction ctxs arbitrary: acc)
  case Nil
  then show ?case by simp
next
  case (Cons ctx rest)
  from Cons.prems obtain n where n: "map_of ctx ''name'' = Some n"
    and rest: "context_names_from (set_add acc n) rest = Inr names"
    by (auto simp: getitem_def split: option.splits)
  note ih = Cons.IH [OF rest]
  have keep: "set acc \<subseteq> set names"
    using ih set_add_keeps [of acc n] by blast
  have only: "set names \<subseteq> set acc \<union> {m. \<exists>c \<in> set (ctx # rest). map_of c ''name'' = Some m}"
    using ih set_add_only [of acc n] n by auto
  have head: "\<exists>y \<in> set names. py_eq y n"
    using ih set_add_has [of acc n] by blast
  from keep only head ih n show ?case by auto
qed

lemma context_names_of_spec:
  assumes "context_names_of ctxs = Inr names"
  shows "set names \<subseteq> {n. \<exists>ctx \<in> set ctxs. map_of ctx ''name'' = Some n}"
    and "\<forall>ctx \<in> set ctxs. \<forall>n. map_of ctx ''name'' = Some n \<longrightarrow> (\<exists>y \<in> set names. py_eq y n)"
  using context_names_from_spec [of "[]" ctxs names] assms
  by (auto simp: context_names_of_def)

text \<open>
  C7. When the path resolves, the file's contexts can be listed and the set of their names
  built, the file is readable and parses to a mapping, and no context override is given,
  \<open>from_file\<close> returns a store whose context name is the name of the file's current
  context, and whose document is the parsed file.
\<close>

theorem from_file_current_context:
  assumes "config_path env path = Inr p"
    and "list_kube_config_contexts env p = Inr (ctxs, cur)"
    and "context_names_of ctxs = Inr names"
    and "getitem cur ''name'' = Inr (YStr marker)"
    and "read_text env p = Inr txt"
    and "safe_load env txt = Inr (YMap m)"
  shows "from_file env path None = Inr \<lparr>config = m, context_name = marker\<rparr>"
  using assms
  by (simp add: from_file_def truthy_def new_cluster_config_def parse_yaml_config_def)

theorem from_file_current_context_witness:
  "from_file sample_env None None = Inr \<lparr>config = sample_doc, context_name = ''dev''\<rparr>"
  using from_file_current_context [of sample_env None "''/home/u/.kube/config''"
      sample_contexts "hd sample_contexts" "[YStr ''dev'', YStr ''prod'']" "''dev''"
      "''kubeconfig''" sample_doc]
  by (simp add: sample_env_def config_path_def truthy_def sample_contexts_def getitem_def
      context_names_of_def unhashable_def set_add_def py_in_def py_eq_def py_num_def)

text \<open>
  C5, as the code has it. When the path resolves, the file's contexts can be listed and
  the set of their names built, and a non-empty override is given that is not in that set,
  \<open>from_file\<close> raises the \<^verbatim>\<open>ValueError\<close> built from the override and from that set, and
  returns no store. The set holds names of the file's contexts only, holds for every such
  name a value equal to it, and no context of the file has the override as its name.
\<close>

theorem from_file_unknown_context:
  assumes "config_path env path = Inr p"
    and "list_kube_config_contexts env p = Inr (ctxs, cur)"
    and "context_names_of ctxs = Inr names"
    and "c \<noteq> []"
    and "YStr c \<notin> set names"
  shows "from_file env path (Some c) = Inl (ValueError (ContextNotFound c (set names)))
       \<and> set names \<subseteq> {n. \<exists>ctx \<in> set ctxs. map_of ctx ''name'' = Some n}
       \<and> (\<forall>ctx \<in> set ctxs. \<forall>n. map_of ctx ''name'' = Some n \<longrightarrow> (\<exists>y \<in> set names. py_eq y n))
       \<and> (\<forall>ctx \<in> set ctxs. map_of ctx ''name'' \<noteq> Some (YStr c))"
proof -
  have raised: "from_file env path (Some c) = Inl (ValueError (ContextNotFound c (set names)))"
    using assms by (simp add: from_file_def truthy_def py_in_str)
  have absent: "\<forall>ctx \<in> set ctxs. map_of ctx ''name'' \<noteq> Some (YStr c)"
  proof (intro ballI notI)
    fix ctx assume "ctx \<in> set ctxs" and "map_of ctx ''name'' = Some (YStr c)"
    with context_names_of_spec(2) [OF assms(3)] obtain y
      where "y \<in> set names" and "py_eq y (YStr c)" by blast
    then have "py_in (YStr c) names"
      by (auto simp: py_in_def list_ex_iff)
    with assms(5) show False by (simp add: py_in_str)
  qed
  from raised absent context_names_of_spec [OF assms(3)] show ?thesis by blast
qed

theorem from_file_unknown_context_witness:
  "from_file sample_env None (Some ''staging'')
     = Inl (ValueError (ContextNotFound ''staging'' {YStr ''dev'', YStr ''prod''}))
   \<and> list_all (\<lambda>ctx. map_of ctx ''name'' \<noteq> Some (YStr ''staging'')) sample_contexts"
  using from_file_unknown_context [of sample_env None "''/home/u/.kube/config''"
      sample_contexts "hd sample_contexts" "[YStr ''dev'', YStr ''prod'']" "''staging''"]
  by (simp add: sample_env_def config_path_def truthy_def sample_contexts_def getitem_def
      context_names_of_def unhashable_def set_add_def py_in_def py_eq_def py_num_def)

text \<open>
  C5 as stated fails for the empty string: \<^verbatim>\<open>if context_name:\<close> takes it for no override,
  so \<open>from_file\<close> returns a store on the current context although the empty string
  names no context of the file.
\<close>

theorem from_file_empty_override_counterexample:
  "context_names_of sample_contexts = Inr [YStr ''dev'', YStr ''prod'']
   \<and> YStr '''' \<notin> set [YStr ''dev'', YStr ''prod'']
   \<and> from_file sample_env None (Some '''') = Inr \<lparr>config = sample_doc, context_name = ''dev''\<rparr>"
  by (simp add: from_file_def truthy_def sample_env_def config_path_def sample_contexts_def
      getitem_def new_cluster_config_def parse_yaml_config_def
      context_names_of_def unhashable_def set_add_def py_in_def py_eq_def py_num_def)

text \<open>
  C6, as the code has it. When the path resolves, the file's contexts can be listed and
  the set of their names built, the file is readable and parses to a mapping, and a
  non-empty override is given that is in that set, \<open>from_file\<close> returns a store whose
  context name is the override and whose document is the whole parsed file; the override
  is then the name of a context of the file.
\<close>

theorem from_file_override:
  assumes "config_path env path = Inr p"
    and "list_kube_config_contexts env p = Inr (ctxs, cur)"
    and "context_names_of ctxs = Inr names"
    and "c \<noteq> []"
    and "YStr c \<in> set names"
    and "read_text env p = Inr txt"
    and "safe_load env txt = Inr (YMap m)"
  shows "from_file env path (Some c) = Inr \<lparr>config = m, context_name = c\<rparr>
       \<and> (\<exists>ctx \<in> set ctxs. map_of ctx ''name'' = Some (YStr c))"
proof -
  have "from_file env path (Some c) = Inr \<lparr>config = m, context_name = c\<rparr>"
    using assms
    by (simp add: from_file_def truthy_def py_in_str new_cluster_config_def
        parse_yaml_config_def)
  moreover have "\<exists>ctx \<in> set ctxs. map_of ctx ''name'' = Some (YStr c)"
    using context_names_of_spec(1) [OF assms(3)] assms(5) by blast
  ultimately show ?thesis by blast
qed

theorem from_file_override_witness:
  "from_file sample_env None (Some ''prod'') = Inr \<lparr>config = sample_doc, context_name = ''prod''\<rparr>
   \<and> list_ex (\<lambda>ctx. map_of ctx ''name'' = Some (YStr ''prod'')) sample_contexts"
  using from_file_override [of sample_env None "''/home/u/.kube/config''"
      sample_contexts "hd sample_contexts" "[YStr ''dev'', YStr ''prod'']" "''prod''"
      "''kubeconfig''" sample_doc]
  by (simp add: sample_env_def config_path_def truthy_def sample_contexts_def getitem_def
      context_names_of_def unhashable_def set_add_def py_in_def py_eq_def py_num_def)

text \<open>
  C6 as stated fails for a context whose name is the empty string: given as the override,
  it is taken for no override, and the store gets the current context instead.
\<close>

theorem from_file_blank_override_counterexample:
  "context_names_of blank_contexts = Inr [YStr '''', YStr ''dev'']
   \<and> YStr '''' \<in> set [YStr '''', YStr ''dev'']
   \<and> from_file blank_env None (Some '''') = Inr \<lparr>config = blank_doc, context_name = ''dev''\<rparr>"
  by (simp add: from_file_def truthy_def blank_env_def sample_env_def config_path_def
      blank_contexts_def getitem_def new_cluster_config_def parse_yaml_config_def
      context_names_of_def unhashable_def set_add_def py_in_def py_eq_def py_num_def)

text \<open>
  C8. A string that parses to a mapping and that mapping itself give stores with the same
  document: the validator parses the string and returns the mapping as it is.
\<close>

theorem parse_yaml_config_roundtrip:
  assumes "safe_load env s = Inr (YMap m)"
  shows "parse_yaml_config env (YStr s) = Inr (YMap m)
       \<and> parse_yaml_config env (YMap m) = Inr (YMap m)
       \<and> new_cluster_config env (YStr s) (YStr c) = Inr \<lparr>config = m, context_name = c\<rparr>
       \<and> new_cluster_config env (YMap m) (YStr c) = Inr \<lparr>config = m, context_name = c\<rparr>"
  using assms by (simp add: parse_yaml_config_def new_cluster_config_def)

theorem parse_yaml_config_roundtrip_witness:
  "new_cluster_config sample_env (YStr ''kubeconfig'') (YStr ''dev'')
     = Inr \<lparr>config = sample_doc, context_name = ''dev''\<rparr>
   \<and> new_cluster_config sample_env (YMap sample_doc) (YStr ''dev'')
     = Inr \<lparr>config = sample_doc, context_name = ''dev''\<rparr>"
  using parse_yaml_config_roundtrip [of sample_env "''kubeconfig''" sample_doc "''dev''"]
  by (simp add: sample_env_def)

section \<open>Acquiring a client\<close>

subsection \<open>The closed forms are what the methods compute\<close>

lemmas call_defs = call_load_kube_config_from_dict_def call_load_incluster_config_def
  call_load_kube_config_def call_close_def call_aexit_def emit_def set_default_def raise_or_def

lemma incluster_or_kube_config_local:
  "incluster_or_kube_config env (Some c) w =
     (raise_or (fallback_result env (Some c)) (),
      w\<lparr>trace := trace w @ fallback_events env (Some c)\<rparr>)"
  by (simp add: incluster_or_kube_config_def call_defs fallback_result_def fallback_events_def
      split: option.splits)

lemma incluster_or_kube_config_default:
  "incluster_or_kube_config env None w =
     (raise_or (fallback_result env None) (),
      w\<lparr>default_conf :=
           (if fallback_result env None = None then Some (fallback_source env None)
            else default_conf w),
         trace := trace w @ fallback_events env None\<rparr>)"
  by (simp add: incluster_or_kube_config_def call_defs fallback_result_def fallback_events_def
      fallback_source_def split: option.splits)

lemma load_client_configuration_eq:
  "load_client_configuration env self c w =
     (raise_or (resolution_result env self (Some c)) (),
      w\<lparr>trace := trace w @ resolution_events env self (Some c)\<rparr>)"
  by (simp add: load_client_configuration_def incluster_or_kube_config_local
      call_load_kube_config_from_dict_def emit_def set_default_def Let_def
      resolution_result_def resolution_events_def split: option.splits)

lemma activate_default_eq:
  "activate_default env self w =
     (raise_or (resolution_result env self None) (),
      w\<lparr>default_conf :=
           (if resolution_result env self None = None then Some (resolution_source env self)
            else default_conf w),
         trace := trace w @ resolution_events env self None\<rparr>)"
  by (simp add: activate_default_def configure_client_def incluster_or_kube_config_default
      call_load_kube_config_from_dict_def emit_def set_default_def Let_def
      resolution_result_def resolution_events_def resolution_source_def split: option.splits)


lemma get_resource_specific_client_fst:
  "fst (get_resource_specific_client env self ct api w) =
     (case resolution_result env self None of
        Some e \<Rightarrow> Inl e
      | None \<Rightarrow> dispatch ct api)"
  by (simp add: get_resource_specific_client_def activate_default_eq raise_or_def
      split: option.splits sum.splits)

lemma get_resource_specific_client_trace:
  "trace (snd (get_resource_specific_client env self ct api w)) =
     trace w @ resolution_events env self None
       @ (if resolution_result env self None = None \<and> \<not> isl (dispatch ct api)
          then [Typed_client_new ct] else [])"
  by (simp add: get_resource_specific_client_def activate_default_eq raise_or_def emit_def
      split: option.splits sum.splits)

lemma get_resource_specific_client_default:
  "default_conf (snd (get_resource_specific_client env self ct api w)) =
     (if resolution_result env self None = None then Some (resolution_source env self)
      else default_conf w)"
  by (simp add: get_resource_specific_client_def activate_default_eq raise_or_def emit_def
      split: option.splits sum.splits)

lemma yield_client_fst:
  "fst (yield_client env self ct api block w) = body_result env self ct api block"
  by (simp add: yield_client_def get_resource_specific_client_def activate_default_eq
      raise_or_def body_result_def split: option.splits sum.splits)

lemma yield_client_trace:
  "trace (snd (yield_client env self ct api block w)) =
     trace w @ body_events env self ct api block"
  by (simp add: yield_client_def get_resource_specific_client_def activate_default_eq
      raise_or_def emit_def body_events_def dispatch_events_def split: option.splits sum.splits)

lemma yield_client_default:
  "default_conf (snd (yield_client env self ct api block w)) =
     (if resolution_result env self None = None then Some (resolution_source env self)
      else default_conf w)"
  by (simp add: yield_client_def get_resource_specific_client_def activate_default_eq
      raise_or_def emit_def split: option.splits sum.splits)

lemma api_client_scope_fst:
  "fst (api_client_scope env self ct cc block w) =
     cleanup_result env (body_result env self ct (ApiClient cc) block)"
  using yield_client_fst [of env self ct "ApiClient cc" block "emit ApiClient_aenter w"]
  by (simp add: api_client_scope_def Let_def call_close_def call_aexit_def cleanup_result_def
      split_beta)

lemma api_client_scope_trace:
  "trace (snd (api_client_scope env self ct cc block w)) =
     trace w @ scope_events env self ct cc block"
  using yield_client_trace [of env self ct "ApiClient cc" block "emit ApiClient_aenter w"]
  by (simp add: api_client_scope_def Let_def call_close_def call_aexit_def emit_def
      scope_events_def cleanup_events_def split_beta)

lemma api_client_scope_default:
  "default_conf (snd (api_client_scope env self ct cc block w)) =
     (if resolution_result env self None = None then Some (resolution_source env self)
      else default_conf w)"
  using yield_client_default [of env self ct "ApiClient cc" block "emit ApiClient_aenter w"]
  by (simp add: api_client_scope_def Let_def call_close_def call_aexit_def emit_def
      split_beta)

lemma get_client_fst:
  "fst (get_client env self ct configuration block w) =
     get_client_result env self ct configuration block"
  by (simp add: get_client_def load_client_configuration_eq Let_def raise_or_def
      api_client_scope_fst get_client_result_def conf_of_def
      split: option.splits)

lemma get_client_trace:
  "trace (snd (get_client env self ct configuration block w)) =
     trace w @ get_client_events env self ct configuration block"
  by (simp add: get_client_def load_client_configuration_eq Let_def raise_or_def
      api_client_scope_trace get_client_events_def conf_of_def conf_events_def emit_def
      split: option.splits)


lemmas events_defs = get_client_events_def scope_events_def body_events_def dispatch_events_def
  resolution_events_def fallback_events_def cleanup_events_def conf_events_def

lemmas result_defs = get_client_result_def body_result_def cleanup_result_def
  resolution_result_def fallback_result_def after_cleanup_def raise_or_def

lemma dispatch_invalid:
  "ct \<notin> set (map fst K8S_CLIENT_TYPES) \<Longrightarrow>
     dispatch ct api = Inl (ValueError (InvalidClientType ct (map fst K8S_CLIENT_TYPES)))"
  by (simp add: dispatch_def map_of_eq_None_iff [THEN iffD2])

lemma dispatch_valid:
  "ct \<in> set (map fst K8S_CLIENT_TYPES) \<Longrightarrow> \<exists>cls. dispatch ct api = Inr (TypedClient cls api)"
  by (auto simp: dispatch_def K8S_CLIENT_TYPES_def)

subsection \<open>Scoped acquisition\<close>

lemma get_client_default:
  "default_conf (snd (get_client env self ct configuration block w)) =
     (if resolution_result env self (Some (conf_of configuration)) = None
         \<and> ApiClient_init env (conf_of configuration) = None
         \<and> resolution_result env self None = None
      then Some (resolution_source env self)
      else default_conf w)"
  by (cases configuration)
    (auto simp: get_client_def load_client_configuration_eq Let_def raise_or_def
      api_client_scope_default conf_of_def emit_def split: option.splits)

text \<open>
  C3, as the code has it. With a stored cluster configuration, the first loader call of
  \<open>get_client\<close> loads the stored document and context name into the configuration object
  of the call (the one supplied, or the one just constructed), and no call of the run,
  whatever the outcomes, is the in-cluster loader or the loader of the default file. The
  load is not for that object only: once the connection is constructed,
  \<open>get_resource_specific_client\<close> calls \<open>configure_client\<close>, which loads the same document
  and context name with no \<^verbatim>\<open>client_configuration\<close>, and when that load succeeds the
  process-wide default configuration is the stored one; otherwise it is left as it was.
\<close>

theorem get_client_stored_config:
  assumes "cluster_config self = Some s"
  shows "(\<exists>rest. trace (snd (get_client env self ct configuration block w)) =
            trace w @ conf_events configuration
              @ Load_from_dict (config s) (context_name s) (Some (conf_of configuration))
                  (load_kube_config_from_dict env (config s) (context_name s)
                     (Some (conf_of configuration)))
              # rest
          \<and> (\<forall>ev \<in> set rest. \<not> is_tier2 ev \<and> \<not> is_tier3 ev)
          \<and> (load_kube_config_from_dict env (config s) (context_name s)
                 (Some (conf_of configuration)) = None
               \<and> ApiClient_init env (conf_of configuration) = None \<longrightarrow>
              Load_from_dict (config s) (context_name s) None
                (load_kube_config_from_dict env (config s) (context_name s) None) \<in> set rest))
       \<and> default_conf (snd (get_client env self ct configuration block w)) =
           (if load_kube_config_from_dict env (config s) (context_name s)
                 (Some (conf_of configuration)) = None
               \<and> ApiClient_init env (conf_of configuration) = None
               \<and> load_kube_config_from_dict env (config s) (context_name s) None = None
            then Some (FromDict (config s) (context_name s))
            else default_conf w)"
proof -
  have calls: "\<exists>rest. trace (snd (get_client env self ct configuration block w)) =
            trace w @ conf_events configuration
              @ Load_from_dict (config s) (context_name s) (Some (conf_of configuration))
                  (load_kube_config_from_dict env (config s) (context_name s)
                     (Some (conf_of configuration)))
              # rest
          \<and> (\<forall>ev \<in> set rest. \<not> is_tier2 ev \<and> \<not> is_tier3 ev)
          \<and> (load_kube_config_from_dict env (config s) (context_name s)
                 (Some (conf_of configuration)) = None
               \<and> ApiClient_init env (conf_of configuration) = None \<longrightarrow>
              Load_from_dict (config s) (context_name s) None
                (load_kube_config_from_dict env (config s) (context_name s) None) \<in> set rest)"
    using assms
    by (auto simp: get_client_trace events_defs resolution_result_def split: sum.splits)
  have state: "default_conf (snd (get_client env self ct configuration block w)) =
           (if load_kube_config_from_dict env (config s) (context_name s)
                 (Some (conf_of configuration)) = None
               \<and> ApiClient_init env (conf_of configuration) = None
               \<and> load_kube_config_from_dict env (config s) (context_name s) None = None
            then Some (FromDict (config s) (context_name s))
            else default_conf w)"
    using assms
    by (simp add: get_client_default resolution_result_def resolution_source_def)
  from calls state show ?thesis by blast
qed

theorem get_client_stored_config_witness:
  "(\<exists>rest. trace (snd (get_client sample_env \<lparr>cluster_config = Some sample_store\<rparr> ''core''
                        (Some (Given 1)) (\<lambda>tc. None) world0)) =
            Load_from_dict sample_doc ''prod'' (Some (Given 1)) None # rest
        \<and> (\<forall>ev \<in> set rest. \<not> is_tier2 ev \<and> \<not> is_tier3 ev)
        \<and> Load_from_dict sample_doc ''prod'' None None \<in> set rest)
   \<and> default_conf (snd (get_client sample_env \<lparr>cluster_config = Some sample_store\<rparr> ''core''
                          (Some (Given 1)) (\<lambda>tc. None) world0))
       = Some (FromDict sample_doc ''prod'')"
  using get_client_stored_config [of "\<lparr>cluster_config = Some sample_store\<rparr>" sample_store
      sample_env "''core''" "Some (Given 1)" "\<lambda>tc. None" world0]
  by (simp add: sample_store_def sample_env_def world0_def conf_events_def conf_of_def)

text \<open>
  C3 as stated fails: the stored configuration is not loaded for the call only. A run of
  \<open>get_client\<close> that starts with no process-wide default configuration ends with the
  stored document and context as the process-wide default, set by the load with no
  \<^verbatim>\<open>client_configuration\<close> that follows the construction of the connection.
\<close>

theorem get_client_stored_config_counterexample:
  "default_conf world0 = None
   \<and> get_client sample_env \<lparr>cluster_config = Some sample_store\<rparr> ''core'' None (\<lambda>tc. None) world0
     = (Inr (),
        \<lparr>default_conf = Some (FromDict sample_doc ''prod''),
         trace =
           [Configuration_new,
            Load_from_dict sample_doc ''prod'' (Some Created) None,
            ApiClient_new Created None,
            ApiClient_aenter,
            Load_from_dict sample_doc ''prod'' None None,
            Typed_client_new ''core'',
            Caller_block None,
            ApiClient_close None,
            ApiClient_aexit,
            ApiClient_close None]\<rparr>)"
  by (simp add: get_client_def load_client_configuration_def api_client_scope_def
      yield_client_def get_resource_specific_client_def activate_default_def
      configure_client_def call_load_kube_config_from_dict_def
      call_close_def call_aexit_def emit_def set_default_def raise_or_def after_cleanup_def
      dispatch_def K8S_CLIENT_TYPES_def sample_env_def sample_store_def world0_def)

subsection \<open>What a run without failures looks like\<close>


lemma resolution_result_quiet:
  assumes "resolution_result env self t = None"
    and "ev \<in> set (resolution_events env self t)"
    and "raised ev \<noteq> None"
  shows "incluster_unavailable ev"
  using assms
  by (auto simp: resolution_events_def resolution_result_def fallback_events_def
      fallback_result_def split: option.splits if_splits)




subsection \<open>An unknown client type\<close>




subsection \<open>Release of the connection\<close>

text \<open>
  C2, as the code has it. Whenever the caller's block has run, whatever its outcome
  (finished, raised, cancelled), the rest of the run is: the \<^verbatim>\<open>close()\<close> of the
  \<^verbatim>\<open>finally\<close> clause, once, then the \<^verbatim>\<open>__aexit__\<close> of the connection, once, and nothing
  closed the connection before the block. The connection is thus closed once when its
  \<^verbatim>\<open>__aexit__\<close> does not close, and twice when it does.
\<close>

theorem get_client_closes:
  assumes "trace (snd (get_client env self ct configuration block w)) = trace w @ evs"
    and "Caller_block out \<in> set evs"
  shows "(\<exists>pre. evs = pre @ [Caller_block out, ApiClient_close (ApiClient_close_outcome env 0),
                           ApiClient_aexit]
                    @ (if aexit_closes env
                       then [ApiClient_close (ApiClient_close_outcome env 1)] else [])
              \<and> (\<forall>ev \<in> set pre. \<not> is_close ev \<and> \<not> is_block ev))
       \<and> length (filter is_close evs) = (if aexit_closes env then 2 else 1)"
proof -
  have evs: "evs = get_client_events env self ct configuration block"
    using assms(1) by (simp add: get_client_trace)
  show ?thesis
    using assms(2) unfolding evs
    by (auto simp: events_defs split: sum.splits option.splits if_splits)
qed

theorem get_client_closes_witness:
  "(\<exists>pre. [Load_from_dict sample_doc ''prod'' (Some (Given 1)) None,
           ApiClient_new (Given 1) None, ApiClient_aenter,
           Load_from_dict sample_doc ''prod'' None None, Typed_client_new ''core'',
           Caller_block (Some CancelledError), ApiClient_close None, ApiClient_aexit,
           ApiClient_close None]
         = pre @ [Caller_block (Some CancelledError), ApiClient_close None, ApiClient_aexit,
                  ApiClient_close None]
       \<and> (\<forall>ev \<in> set pre. \<not> is_close ev \<and> \<not> is_block ev))"
proof -
  let ?evs = "[Load_from_dict sample_doc ''prod'' (Some (Given 1)) None,
           ApiClient_new (Given 1) None, ApiClient_aenter,
           Load_from_dict sample_doc ''prod'' None None, Typed_client_new ''core'',
           Caller_block (Some CancelledError), ApiClient_close None, ApiClient_aexit,
           ApiClient_close None]"
  have run: "trace (snd (get_client sample_env \<lparr>cluster_config = Some sample_store\<rparr> ''core''
               (Some (Given 1)) (\<lambda>tc. Some CancelledError) world0)) = trace world0 @ ?evs"
    by (simp add: get_client_trace events_defs result_defs dispatch_def K8S_CLIENT_TYPES_def
        sample_env_def sample_store_def world0_def conf_of_def)
  have "Caller_block (Some CancelledError) \<in> set ?evs" by simp
  from get_client_closes [OF run this] show ?thesis
    by (simp add: sample_env_def)
qed

text \<open>
  C2 as stated fails for a connection whose \<^verbatim>\<open>__aexit__\<close> closes it, as that of the
  client library does: the \<^verbatim>\<open>finally\<close> clause and the exit of the \<^verbatim>\<open>async with\<close>
  each close the connection.
\<close>

theorem get_client_closes_twice_counterexample:
  "filter is_close (trace (snd (get_client sample_env \<lparr>cluster_config = None\<rparr> ''core'' None
                                   (\<lambda>tc. None) world0)))
     = [ApiClient_close None, ApiClient_close None]
   \<and> aexit_closes sample_env"
  by (simp add: get_client_trace events_defs result_defs dispatch_def K8S_CLIENT_TYPES_def
      sample_env_def world0_def conf_of_def is_config_exception_def)

subsection \<open>The fallback\<close>

text \<open>
  C4. Without a stored cluster configuration: when the in-cluster loader raises
  \<open>ConfigException\<close>, the next call of \<open>get_client\<close> loads the default file into the same
  configuration object; when it raises anything else, \<open>get_client\<close> raises that very error
  and makes no further call. And whenever \<open>get_client\<close> finishes without raising, the only
  calls of the run that raised are in-cluster loads raising \<open>ConfigException\<close>: no other
  error is turned into continued control flow.
\<close>

theorem get_client_fallback:
  assumes "trace (snd (get_client env self ct configuration block w)) = trace w @ evs"
  shows "(cluster_config self = None \<longrightarrow>
            (\<forall>e. load_incluster_config env (Some (conf_of configuration)) = Some e
                   \<and> is_config_exception e \<longrightarrow>
                 (\<exists>rest. evs = conf_events configuration
                     @ [Load_incluster (Some (conf_of configuration)) (Some e),
                        Load_kube_config (Some (conf_of configuration))
                          (load_kube_config env (Some (conf_of configuration)))]
                     @ rest))
          \<and> (\<forall>e. load_incluster_config env (Some (conf_of configuration)) = Some e
                   \<and> \<not> is_config_exception e \<longrightarrow>
                 fst (get_client env self ct configuration block w) = Inl e
               \<and> evs = conf_events configuration
                     @ [Load_incluster (Some (conf_of configuration)) (Some e)]))
       \<and> (fst (get_client env self ct configuration block w) = Inr () \<longrightarrow>
            (\<forall>ev \<in> set evs. raised ev \<noteq> None \<longrightarrow> incluster_unavailable ev))"
proof -
  let ?cc = "conf_of configuration"
  let ?E = "get_client_events env self ct configuration block"
  let ?R = "get_client_result env self ct configuration block"
  have evs: "evs = ?E"
    using assms by (simp add: get_client_trace)
  have fallback: "\<exists>rest. ?E = conf_events configuration
                     @ [Load_incluster (Some ?cc) (Some e),
                        Load_kube_config (Some ?cc) (load_kube_config env (Some ?cc))] @ rest"
    if "cluster_config self = None" "load_incluster_config env (Some ?cc) = Some e"
      "is_config_exception e" for e
    using that
    by (simp add: get_client_events_def resolution_events_def fallback_events_def)
  have other: "?R = Inl e \<and> ?E = conf_events configuration @ [Load_incluster (Some ?cc) (Some e)]"
    if "cluster_config self = None" "load_incluster_config env (Some ?cc) = Some e"
      "\<not> is_config_exception e" for e
    using that
    by (simp add: get_client_events_def get_client_result_def resolution_events_def
        resolution_result_def fallback_events_def fallback_result_def)
  have only: "incluster_unavailable ev"
    if ok: "?R = Inr ()" and ev: "ev \<in> set ?E" and r: "raised ev \<noteq> None" for ev
  proof -
    have r1: "resolution_result env self (Some ?cc) = None"
      using ok by (simp add: get_client_result_def split: option.splits)
    have r2: "ApiClient_init env ?cc = None"
      using ok r1 by (simp add: get_client_result_def split: option.splits)
    have c: "cleanup_result env (body_result env self ct (ApiClient ?cc) block) = Inr ()"
      using ok by (simp add: get_client_result_def r1 r2)
    have c0: "ApiClient_close_outcome env 0 = None"
      using c by (auto simp: cleanup_result_def after_cleanup_def raise_or_def
          split: option.splits sum.splits if_splits)
    have c1: "aexit_closes env \<Longrightarrow> ApiClient_close_outcome env 1 = None"
      using c by (auto simp: cleanup_result_def after_cleanup_def raise_or_def
          split: option.splits sum.splits if_splits)
    have b: "body_result env self ct (ApiClient ?cc) block = Inr ()"
      using c by (auto simp: cleanup_result_def after_cleanup_def raise_or_def
          split: option.splits sum.splits if_splits)
    have r3: "resolution_result env self None = None"
      using b by (simp add: body_result_def split: option.splits)
    have blk: "\<forall>ev' \<in> set (dispatch_events ct (ApiClient ?cc) block). raised ev' = None"
      using b r3 by (auto simp: body_result_def dispatch_events_def raise_or_def
          split: sum.splits option.splits)
    have cl: "\<forall>ev' \<in> set (cleanup_events env). raised ev' = None"
      using c0 c1 by (simp add: cleanup_events_def)
    have "ev \<in> set (resolution_events env self (Some ?cc))
        \<or> ev \<in> set (resolution_events env self None)"
      using ev r blk cl
      by (auto simp: get_client_events_def r1 r2 r3 scope_events_def body_events_def
          conf_events_def split: option.splits)
    then show ?thesis
      using resolution_result_quiet [OF r1 _ r] resolution_result_quiet [OF r3 _ r] by blast
  qed
  show ?thesis
    unfolding evs get_client_fst using fallback other only by blast
qed

theorem get_client_fallback_witness:
  "(\<exists>rest. [Configuration_new,
            Load_incluster (Some Created) (Some (ConfigException ''Service host/port is not set.'')),
            Load_kube_config (Some Created) None,
            ApiClient_new Created None, ApiClient_aenter,
            Load_incluster None (Some (ConfigException ''Service host/port is not set.'')),
            Load_kube_config None None, Typed_client_new ''core'', Caller_block None,
            ApiClient_close None, ApiClient_aexit, ApiClient_close None]
          = [Configuration_new,
             Load_incluster (Some Created) (Some (ConfigException ''Service host/port is not set.'')),
             Load_kube_config (Some Created) None] @ rest)
   \<and> list_all (\<lambda>ev. raised ev = None \<or> incluster_unavailable ev)
        [Configuration_new,
         Load_incluster (Some Created) (Some (ConfigException ''Service host/port is not set.'')),
         Load_kube_config (Some Created) None,
         ApiClient_new Created None, ApiClient_aenter,
         Load_incluster None (Some (ConfigException ''Service host/port is not set.'')),
         Load_kube_config None None, Typed_client_new ''core'', Caller_block None,
         ApiClient_close None, ApiClient_aexit, ApiClient_close None]
   \<and> fst (get_client (sample_env\<lparr>load_incluster_config := (\<lambda>cc. Some (LibraryError ''PermissionError''))\<rparr>)
          \<lparr>cluster_config = None\<rparr> ''core'' None (\<lambda>tc. None) world0)
       = Inl (LibraryError ''PermissionError'')"
proof -
  let ?evs = "[Configuration_new,
            Load_incluster (Some Created) (Some (ConfigException ''Service host/port is not set.'')),
            Load_kube_config (Some Created) None,
            ApiClient_new Created None, ApiClient_aenter,
            Load_incluster None (Some (ConfigException ''Service host/port is not set.'')),
            Load_kube_config None None, Typed_client_new ''core'', Caller_block None,
            ApiClient_close None, ApiClient_aexit, ApiClient_close None]"
  let ?env' = "sample_env\<lparr>load_incluster_config := (\<lambda>cc. Some (LibraryError ''PermissionError''))\<rparr>"
  have run: "trace (snd (get_client sample_env \<lparr>cluster_config = None\<rparr> ''core'' None
               (\<lambda>tc. None) world0)) = trace world0 @ ?evs"
    by (simp add: get_client_trace events_defs result_defs dispatch_def K8S_CLIENT_TYPES_def
        sample_env_def world0_def conf_of_def is_config_exception_def)
  have ok: "fst (get_client sample_env \<lparr>cluster_config = None\<rparr> ''core'' None
               (\<lambda>tc. None) world0) = Inr ()"
    by (simp add: get_client_fst result_defs dispatch_def K8S_CLIENT_TYPES_def
        sample_env_def conf_of_def is_config_exception_def)
  have unavailable: "load_incluster_config sample_env (Some (conf_of None))
      = Some (ConfigException ''Service host/port is not set.'')
      \<and> is_config_exception (ConfigException ''Service host/port is not set.'')"
    by (simp add: sample_env_def is_config_exception_def)
  have run': "trace (snd (get_client ?env' \<lparr>cluster_config = None\<rparr> ''core'' None
               (\<lambda>tc. None) world0))
      = trace world0 @ [Configuration_new,
                        Load_incluster (Some Created) (Some (LibraryError ''PermissionError''))]"
    by (simp add: get_client_trace events_defs result_defs sample_env_def world0_def conf_of_def
        is_config_exception_def)
  have other: "load_incluster_config ?env' (Some (conf_of None))
      = Some (LibraryError ''PermissionError'')
      \<and> \<not> is_config_exception (LibraryError ''PermissionError'')"
    by (simp add: is_config_exception_def)
  have none: "cluster_config \<lparr>cluster_config = None\<rparr> = None"
    by simp
  from get_client_fallback [OF run] ok unavailable none
  have first: "(\<exists>rest. ?evs = conf_events None
        @ [Load_incluster (Some (conf_of None)) (Some (ConfigException ''Service host/port is not set.'')),
           Load_kube_config (Some (conf_of None)) (load_kube_config sample_env (Some (conf_of None)))]
        @ rest)
      \<and> (\<forall>ev \<in> set ?evs. raised ev \<noteq> None \<longrightarrow> incluster_unavailable ev)"
    by blast
  from get_client_fallback [OF run'] other none
  have second: "fst (get_client ?env' \<lparr>cluster_config = None\<rparr> ''core'' None (\<lambda>tc. None) world0)
      = Inl (LibraryError ''PermissionError'')"
    by blast
  from first second show ?thesis
    by (simp add: conf_events_def conf_of_def sample_env_def is_config_exception_def)
qed

subsection \<open>The standalone client\<close>

text \<open>
  C9. \<open>get_api_client\<close> makes one call, \<^verbatim>\<open>new_client_from_config_dict\<close> on the stored
  document and context name; it returns the connection bound to them when that call
  returns, raises its error when it raises, and in either case leaves the process-wide
  default configuration as it was.
\<close>

theorem get_api_client_frame:
  "default_conf (snd (get_api_client env s w)) = default_conf w
   \<and> trace (snd (get_api_client env s w))
       = trace w @ [New_client_from_config_dict (config s) (context_name s)
                      (new_client_from_config_dict env (config s) (context_name s))]
   \<and> (new_client_from_config_dict env (config s) (context_name s) = None \<longrightarrow>
        fst (get_api_client env s w) = Inr (ApiClientFromDict (config s) (context_name s)))
   \<and> (\<forall>e. new_client_from_config_dict env (config s) (context_name s) = Some e \<longrightarrow>
        fst (get_api_client env s w) = Inl e)"
  by (simp add: get_api_client_def Let_def emit_def raise_or_def)

theorem get_api_client_frame_witness:
  "get_api_client sample_env sample_store world0
     = (Inr (ApiClientFromDict sample_doc ''prod''),
        \<lparr>default_conf = None,
         trace = [New_client_from_config_dict sample_doc ''prod'' None]\<rparr>)"
proof -
  have ok: "new_client_from_config_dict sample_env (config sample_store)
              (context_name sample_store) = None"
    by (simp add: sample_env_def)
  from get_api_client_frame [of sample_env sample_store world0] ok
  have "fst (get_api_client sample_env sample_store world0)
          = Inr (ApiClientFromDict sample_doc ''prod'')
      \<and> default_conf (snd (get_api_client sample_env sample_store world0)) = None
      \<and> trace (snd (get_api_client sample_env sample_store world0))
          = [New_client_from_config_dict sample_doc ''prod'' None]"
    by (simp add: sample_store_def world0_def)
  then show ?thesis
    by (cases "get_api_client sample_env sample_store world0") auto
qed

subsection \<open>The non-scoped variant\<close>

text \<open>
  C10. For a client type outside \<open>K8S_CLIENT_TYPES\<close>, \<open>get_resource_specific_client\<close> first
  runs the resolution on the process-wide default configuration; when the tier that
  applies succeeds (the stored configuration, the in-cluster identity, or the default file
  after the in-cluster \<open>ConfigException\<close>), the \<^verbatim>\<open>ValueError\<close> is raised with the
  process-wide default already set by that tier.
\<close>

theorem get_resource_specific_client_invalid_type:
  assumes "client_type \<notin> set (map fst K8S_CLIENT_TYPES)"
  shows "(\<forall>s. cluster_config self = Some s
              \<and> load_kube_config_from_dict env (config s) (context_name s) None = None \<longrightarrow>
            get_resource_specific_client env self client_type api_client w
              = (Inl (ValueError (InvalidClientType client_type (map fst K8S_CLIENT_TYPES))),
                 \<lparr>default_conf = Some (FromDict (config s) (context_name s)),
                  trace = trace w @ [Load_from_dict (config s) (context_name s) None None]\<rparr>))
       \<and> (cluster_config self = None \<and> load_incluster_config env None = None \<longrightarrow>
            get_resource_specific_client env self client_type api_client w
              = (Inl (ValueError (InvalidClientType client_type (map fst K8S_CLIENT_TYPES))),
                 \<lparr>default_conf = Some InCluster,
                  trace = trace w @ [Load_incluster None None]\<rparr>))
       \<and> (\<forall>e. cluster_config self = None \<and> load_incluster_config env None = Some e
              \<and> is_config_exception e \<and> load_kube_config env None = None \<longrightarrow>
            get_resource_specific_client env self client_type api_client w
              = (Inl (ValueError (InvalidClientType client_type (map fst K8S_CLIENT_TYPES))),
                 \<lparr>default_conf = Some KubeConfigFile,
                  trace = trace w @ [Load_incluster None (Some e), Load_kube_config None None]\<rparr>))"
  using dispatch_invalid [OF assms, of api_client]
  by (simp add: get_resource_specific_client_def activate_default_def configure_client_def
      incluster_or_kube_config_def call_load_kube_config_from_dict_def
      call_load_incluster_config_def call_load_kube_config_def emit_def set_default_def
      raise_or_def Let_def)

theorem get_resource_specific_client_invalid_type_witness:
  "get_resource_specific_client sample_env \<lparr>cluster_config = Some sample_store\<rparr> ''pods''
       (ApiClient (Given 1)) world0
     = (Inl (ValueError (InvalidClientType ''pods'' [''apps'', ''batch'', ''core'', ''custom_objects''])),
        \<lparr>default_conf = Some (FromDict sample_doc ''prod''),
         trace = [Load_from_dict sample_doc ''prod'' None None]\<rparr>)
   \<and> default_conf world0 = None"
proof -
  have invalid: "''pods'' \<notin> set (map fst K8S_CLIENT_TYPES)"
    by (simp add: K8S_CLIENT_TYPES_def)
  have ok: "load_kube_config_from_dict sample_env (config sample_store)
              (context_name sample_store) None = None"
    by (simp add: sample_env_def)
  from get_resource_specific_client_invalid_type [OF invalid,
      of "\<lparr>cluster_config = Some sample_store\<rparr>" sample_env "ApiClient (Given 1)" world0] ok
  show ?thesis
    by (simp add: sample_store_def world0_def K8S_CLIENT_TYPES_def)
qed

end
